theory Spec2Isabelle
  imports Complex_Main
begin

section \<open>Values\<close>

text \<open>
  A Python \<open>str\<close> is a sequence of Unicode code points, and slicing counts code points.
  HOL's \<open>char\<close> is a byte, so a \<open>str\<close> value is modelled as the list of its code points;
  \<open>asc\<close> embeds an ASCII literal. Dictionary keys are ASCII literals of the source and
  stay HOL strings.
\<close>

type_synonym pystr = "nat list"

definition asc :: "string \<Rightarrow> pystr" where
  "asc s = map of_char s"

text \<open>
  A Python \<open>float\<close> is an IEEE 754 binary64 value. \<open>Finite s m e\<close> is
  \<open>(-1)\<^sup>s * m * 2\<^sup>e\<close> in the canonical encoding: \<open>2\<^sup>5\<^sup>2 \<le> m < 2\<^sup>5\<^sup>3\<close> with
  \<open>-1074 \<le> e \<le> 971\<close> for a normal number, \<open>m < 2\<^sup>5\<^sup>2\<close> with \<open>e = -1074\<close> for zero and
  the subnormal numbers. The sign of zero is kept.
\<close>

datatype pyfloat = Finite bool nat int | Infinity bool | NaN

text \<open>A JSON value as the datastore client returns it inside a row.\<close>

datatype jval = JNull | JBool bool | JInt int | JFloat pyfloat | JStr pystr

type_synonym row = "string \<rightharpoonup> jval"

datatype error =
    HTTPException nat string
  | KeyError string
  | IndexError
  | TypeError
  | ValueError
  | AttributeError
  | OverflowError
  | ZeroDivisionError

subsection \<open>Rounding to binary64\<close>

text \<open>The number of bits of a natural number: \<open>bitlen 0 = 0\<close>, \<open>bitlen 5 = 3\<close>.\<close>

fun bitlen :: "nat \<Rightarrow> nat" where
  "bitlen n = (if n = 0 then 0 else Suc (bitlen (n div 2)))"

declare bitlen.simps [simp del]

text \<open>\<open>pack\<close> renormalises a significand that rounding carried up to \<open>2\<^sup>5\<^sup>3\<close> and
  turns a value beyond the largest finite one into an infinity.\<close>

definition pack :: "bool \<Rightarrow> nat \<Rightarrow> int \<Rightarrow> pyfloat" where
  "pack s n q =
     (let (n', q') = (if n = 2 ^ 53 then (2 ^ 52, q + 1) else (n, q))
      in if 971 < q' then Infinity s else Finite s n' q')"

text \<open>\<open>num / den\<close> rounded to the nearest natural number, ties to even.\<close>

definition round_half_even :: "nat \<Rightarrow> nat \<Rightarrow> nat" where
  "round_half_even num den =
     (let n = num div den; r = num mod den
      in if den < 2 * r \<or> (2 * r = den \<and> odd n) then n + 1 else n)"

text \<open>The binary64 value nearest to \<open>(-1)\<^sup>s * m * 2\<^sup>e\<close> (round to nearest, ties to even),
  the rounding of every float operation.\<close>

definition round_dyadic :: "bool \<Rightarrow> nat \<Rightarrow> int \<Rightarrow> pyfloat" where
  "round_dyadic s m e =
     (if m = 0 then Finite s 0 (- 1074)
      else let q = max (e + int (bitlen m) - 53) (- 1074)
           in if q \<le> e then pack s (m * 2 ^ nat (e - q)) q
              else pack s (round_half_even m (2 ^ nat (q - e))) q)"

text \<open>The binary64 value nearest to \<open>(-1)\<^sup>s * p / q\<close>, for \<open>q > 0\<close>.\<close>

definition round_ratio :: "bool \<Rightarrow> nat \<Rightarrow> nat \<Rightarrow> pyfloat" where
  "round_ratio s p q =
     (if p = 0 then Finite s 0 (- 1074)
      else let a = int (bitlen p) - int (bitlen q);
               lead = (if (if 0 \<le> a then q * 2 ^ nat a \<le> p else q \<le> p * 2 ^ nat (- a))
                       then a else a - 1);
               qe = max (lead - 52) (- 1074)
           in if 0 \<le> qe then pack s (round_half_even p (q * 2 ^ nat qe)) qe
              else pack s (round_half_even (p * 2 ^ nat (- qe)) q) qe)"

definition signed :: "bool \<Rightarrow> nat \<Rightarrow> int" where
  "signed s m = (if s then - int m else int m)"

subsection \<open>Float arithmetic\<close>

text \<open>\<open>x + y\<close> on floats: the exact sum, rounded. A zero operand leaves the other one as
  it is; two zeros of the same sign keep it; a sum that cancels is \<open>+0.0\<close>.\<close>

fun fadd :: "pyfloat \<Rightarrow> pyfloat \<Rightarrow> pyfloat" where
  "fadd NaN y = NaN"
| "fadd x NaN = NaN"
| "fadd (Infinity s) (Infinity t) = (if s = t then Infinity s else NaN)"
| "fadd (Infinity s) (Finite t m e) = Infinity s"
| "fadd (Finite s m e) (Infinity t) = Infinity t"
| "fadd (Finite s1 m1 e1) (Finite s2 m2 e2) =
     (if m1 = 0 \<and> m2 = 0 then Finite (s1 \<and> s2) 0 (- 1074)
      else if m2 = 0 then Finite s1 m1 e1
      else if m1 = 0 then Finite s2 m2 e2
      else let e = min e1 e2;
               i = signed s1 (m1 * 2 ^ nat (e1 - e)) + signed s2 (m2 * 2 ^ nat (e2 - e))
           in if i = 0 then Finite False 0 (- 1074)
              else round_dyadic (i < 0) (nat \<bar>i\<bar>) e)"

fun fneg :: "pyfloat \<Rightarrow> pyfloat" where
  "fneg (Finite s m e) = Finite (\<not> s) m e"
| "fneg (Infinity s) = Infinity (\<not> s)"
| "fneg NaN = NaN"

text \<open>\<open>x - y\<close> on floats.\<close>

definition fsub :: "pyfloat \<Rightarrow> pyfloat \<Rightarrow> pyfloat" where
  "fsub x y = fadd x (fneg y)"

text \<open>\<open>x * y\<close> on floats.\<close>

fun fmul :: "pyfloat \<Rightarrow> pyfloat \<Rightarrow> pyfloat" where
  "fmul NaN y = NaN"
| "fmul x NaN = NaN"
| "fmul (Infinity s) (Infinity t) = Infinity (s \<noteq> t)"
| "fmul (Infinity s) (Finite t m e) = (if m = 0 then NaN else Infinity (s \<noteq> t))"
| "fmul (Finite s m e) (Infinity t) = (if m = 0 then NaN else Infinity (s \<noteq> t))"
| "fmul (Finite s1 m1 e1) (Finite s2 m2 e2) = round_dyadic (s1 \<noteq> s2) (m1 * m2) (e1 + e2)"

text \<open>The float of a small Python \<open>int\<close>, as the mixed operations \<open>0 + x\<close> and \<open>y - 15\<close>
  convert it (exact up to \<open>2\<^sup>5\<^sup>3\<close>; the source converts only literals this way).\<close>

definition float_of_int :: "int \<Rightarrow> pyfloat" where
  "float_of_int i = round_dyadic (i < 0) (nat \<bar>i\<bar>) 0"

text \<open>\<open>a / b\<close> on Python ints: the correctly rounded quotient; \<open>OverflowError\<close> when it
  is too large for a float, \<open>ZeroDivisionError\<close> when \<open>b = 0\<close>.\<close>

definition int_truediv :: "int \<Rightarrow> int \<Rightarrow> error + pyfloat" where
  "int_truediv a b =
     (if b = 0 then Inl ZeroDivisionError
      else case round_ratio ((a < 0) \<noteq> (b < 0)) (nat \<bar>a\<bar>) (nat \<bar>b\<bar>) of
             Finite s m e \<Rightarrow> Inr (Finite s m e)
           | _ \<Rightarrow> Inl OverflowError)"

text \<open>The real number a finite float stands for.\<close>

fun fval :: "pyfloat \<Rightarrow> rat option" where
  "fval (Finite s m e) =
     Some ((if s then - 1 else 1) * of_nat m * (if 0 \<le> e then 2 ^ nat e else 1 / 2 ^ nat (- e)))"
| "fval (Infinity s) = None"
| "fval NaN = None"

text \<open>\<open>sum(xs)\<close> over floats: the start value is the int \<open>0\<close>, and each element is added
  in turn. (The int \<open>0\<close> of an empty sum is represented by the float \<open>+0.0\<close>, which
  behaves the same in the arithmetic that follows.)\<close>

definition py_sum :: "pyfloat list \<Rightarrow> pyfloat" where
  "py_sum xs = foldl fadd (float_of_int 0) xs"


section \<open>Persistence gateway\<close>

text \<open>
  The datastore is an external collaborator reached through the Supabase client. It is
  modelled as one list of rows per table, in insertion order, with the four operations
  the source uses: \<open>select\<close>, \<open>insert\<close>, \<open>update\<close> and \<open>delete\<close>, each narrowed by
  equality filters (\<open>.eq(column, value)\<close>). The columns the database fills in on insert
  (the identifier, timestamps, column defaults) are an input of \<open>insert\<close>. The model has
  no schema: it enforces no uniqueness, foreign-key or type constraint.
\<close>

type_synonym table = "row list"

record db =
  users :: table
  customers :: table
  products :: table
  quotations :: table
  quotation_items :: table
  reminders :: table

fun matches :: "(string \<times> jval) list \<Rightarrow> row \<Rightarrow> bool" where
  "matches [] r = True"
| "matches ((k, v) # fs) r = (r k = Some v \<and> matches fs r)"

definition db_select :: "(string \<times> jval) list \<Rightarrow> table \<Rightarrow> row list" where
  "db_select fs t = filter (matches fs) t"

text \<open>\<open>insert\<close> of one row: the stored row is the submitted dictionary over the
  generated columns; the response data is the stored row.\<close>

definition db_insert :: "row \<Rightarrow> row \<Rightarrow> table \<Rightarrow> row list \<times> table" where
  "db_insert gen r t = ([gen ++ r], t @ [gen ++ r])"

text \<open>\<open>insert\<close> of a list of rows; \<open>gens i\<close> are the generated columns of the \<open>i\<close>-th.\<close>

definition db_insert_many :: "(nat \<Rightarrow> row) \<Rightarrow> row list \<Rightarrow> table \<Rightarrow> row list \<times> table" where
  "db_insert_many gens rs t =
     (let new = map (\<lambda>(i, r). gens i ++ r) (enumerate 0 rs) in (new, t @ new))"

definition db_update :: "(string \<times> jval) list \<Rightarrow> row \<Rightarrow> table \<Rightarrow> row list \<times> table" where
  "db_update fs upd t =
     (map (\<lambda>r. r ++ upd) (filter (matches fs) t),
      map (\<lambda>r. if matches fs r then r ++ upd else r) t)"

definition db_delete :: "(string \<times> jval) list \<Rightarrow> table \<Rightarrow> row list \<times> table" where
  "db_delete fs t = (filter (matches fs) t, filter (\<lambda>r. \<not> matches fs r) t)"

text \<open>\<open>d[k]\<close> raises \<open>KeyError\<close> on a missing key.\<close>

definition getitem :: "row \<Rightarrow> string \<Rightarrow> error + jval" where
  "getitem r k = (case r k of None \<Rightarrow> Inl (KeyError k) | Some v \<Rightarrow> Inr v)"

section \<open>Registration\<close>

record UserCreate =
  uc_email :: pystr
  uc_password :: pystr
  uc_full_name :: pystr

record auth_response =
  access_token :: pystr
  token_type :: pystr
  user_id :: jval
  user_email :: jval
  user_full_name :: jval

text \<open>
  \<open>hash_password\<close> (bcrypt with a fresh salt) and \<open>create_access_token\<close> (a signed token
  with an expiry) are library calls; they are parameters of the model.
\<close>

definition register ::
  "(pystr \<Rightarrow> pystr) \<Rightarrow> (jval \<Rightarrow> pystr) \<Rightarrow> row \<Rightarrow> UserCreate \<Rightarrow> db \<Rightarrow> (error + auth_response) \<times> db"
where
  "register hash_password create_access_token gen user d =
     (let existing = db_select [(''email'', JStr (uc_email user))] (users d) in
      if existing \<noteq> [] then (Inl (HTTPException 400 ''Email already registered''), d)
      else
        let hashed_pw = hash_password (uc_password user);
            new_user = [''email'' \<mapsto> JStr (uc_email user),
                        ''password_hash'' \<mapsto> JStr hashed_pw,
                        ''full_name'' \<mapsto> JStr (uc_full_name user),
                        ''subscription_plan'' \<mapsto> JStr (asc ''free''),
                        ''subscription_status'' \<mapsto> JStr (asc ''active''),
                        ''default_tax_rate'' \<mapsto> JInt 20];
            (data, us) = db_insert gen new_user (users d);
            d' = d\<lparr>users := us\<rparr>
        in case data of
             [] \<Rightarrow> (Inl (HTTPException 500 ''Failed to create user''), d')
           | user_data # _ \<Rightarrow>
               (case getitem user_data ''id'' of
                  Inl e \<Rightarrow> (Inl e, d')
                | Inr uid \<Rightarrow>
                   (case getitem user_data ''email'' of
                      Inl e \<Rightarrow> (Inl e, d')
                    | Inr em \<Rightarrow>
                       (case getitem user_data ''full_name'' of
                          Inl e \<Rightarrow> (Inl e, d')
                        | Inr fn \<Rightarrow>
                           (Inr \<lparr>access_token = create_access_token uid,
                                 token_type = asc ''bearer'',
                                 user_id = uid, user_email = em, user_full_name = fn\<rparr>,
                            d')))))"

section \<open>Quotations\<close>

record QuotationItem =
  product_name :: pystr
  specifications :: "pystr option"
  quantity :: int
  unit :: pystr
  unit_price :: pyfloat
  total :: pyfloat

record QuotationCreate =
  customer_id :: pystr
  items :: "QuotationItem list"
  discount_amount :: pyfloat
  tax_rate :: int
  notes' :: "pystr option"

definition opt_str :: "pystr option \<Rightarrow> jval" where
  "opt_str v = (case v of None \<Rightarrow> JNull | Some s \<Rightarrow> JStr s)"

text \<open>\<open>item.dict()\<close>.\<close>

definition item_dict :: "QuotationItem \<Rightarrow> row" where
  "item_dict item =
     [''product_name'' \<mapsto> JStr (product_name item),
      ''specifications'' \<mapsto> opt_str (specifications item),
      ''quantity'' \<mapsto> JInt (quantity item),
      ''unit'' \<mapsto> JStr (unit item),
      ''unit_price'' \<mapsto> JFloat (unit_price item),
      ''total'' \<mapsto> JFloat (total item)]"

text \<open>The row \<open>{"quotation_id": quotation_id, **item.dict()}\<close> of one item.\<close>

definition item_row :: "jval \<Rightarrow> QuotationItem \<Rightarrow> row" where
  "item_row quotation_id item = [''quotation_id'' \<mapsto> quotation_id] ++ item_dict item"

text \<open>
  The four lines under \<open># Hesaplamalar\<close>, which \<open>create_quotation\<close> and
  \<open>update_quotation\<close> both start with:
  \<^verbatim>\<open>
  subtotal = sum(item.total for item in quotation.items)
  taxable_amount = subtotal - quotation.discount_amount
  tax_amount = taxable_amount * (quotation.tax_rate / 100)
  total = taxable_amount + tax_amount
  \<close>
  The result is \<open>(subtotal, taxable_amount, tax_amount, total)\<close>.
\<close>

definition amounts :: "QuotationCreate \<Rightarrow> error + (pyfloat \<times> pyfloat \<times> pyfloat \<times> pyfloat)" where
  "amounts quotation =
     (let subtotal = py_sum (map total (items quotation));
          taxable_amount = fsub subtotal (discount_amount quotation)
      in case int_truediv (tax_rate quotation) 100 of
           Inl e \<Rightarrow> Inl e
         | Inr rate \<Rightarrow>
             let tax_amount = fmul taxable_amount rate
             in Inr (subtotal, taxable_amount, tax_amount, fadd taxable_amount tax_amount))"

subsection \<open>Quotation numbers\<close>

text \<open>The decimal digits of a natural number, \<open>str(n)\<close>.\<close>

fun digits :: "nat \<Rightarrow> pystr" where
  "digits n = (if n < 10 then [48 + n] else digits (n div 10) @ [48 + n mod 10])"

declare digits.simps [simp del]

text \<open>A two-digit field of \<open>strftime\<close> (\<open>%m\<close>, \<open>%d\<close>, \<open>%H\<close>, \<open>%M\<close>, \<open>%S\<close>).\<close>

definition pad2 :: "nat \<Rightarrow> pystr" where
  "pad2 n = [48 + n div 10, 48 + n mod 10]"

text \<open>The reading of \<open>datetime.now()\<close>.\<close>

record clock =
  year :: nat
  month :: nat
  day :: nat
  hour :: nat
  minute :: nat
  second :: nat

text \<open>\<open>strftime("%Y%m%d%H%M%S")\<close>; \<open>%Y\<close> is the year in decimal (the C library does not
  pad it).\<close>

definition strftime :: "clock \<Rightarrow> pystr" where
  "strftime c = digits (year c) @ pad2 (month c) @ pad2 (day c) @ pad2 (hour c)
                 @ pad2 (minute c) @ pad2 (second c)"

text \<open>The clock reading and the result of \<open>random.randint(1000, 9999)\<close> are inputs.\<close>

definition generate_quotation_number :: "clock \<Rightarrow> nat \<Rightarrow> pystr" where
  "generate_quotation_number now random_num =
     asc ''Q-'' @ strftime now @ asc ''-'' @ digits random_num"

subsection \<open>Create, read, update\<close>

text \<open>What the environment decides during a request: the clock, the random number, and
  the columns the database generates for the inserted header and for each item row.\<close>

record environ =
  now :: clock
  random_num :: nat
  gen_row :: row
  gen_items :: "nat \<Rightarrow> row"

text \<open>\<open>select("*, customers(*)")\<close> embeds in each quotation row the customer its
  \<open>customer_id\<close> refers to, or null when there is none.\<close>

definition embedded_customer :: "db \<Rightarrow> row \<Rightarrow> row option" where
  "embedded_customer d r =
     (case r ''customer_id'' of
        None \<Rightarrow> None
      | Some v \<Rightarrow> if v = JNull then None
                  else (case filter (\<lambda>c. c ''id'' = Some v) (customers d) of
                          [] \<Rightarrow> None
                        | c # _ \<Rightarrow> Some c))"

text \<open>The response of the quotation endpoints: the header row with its item rows under
  \<open>"items"\<close> and the embedded customer under \<open>"customer"\<close>.\<close>

record quotation_view =
  qv_header :: row
  qv_items :: "row list"
  qv_customer :: "row option"

definition load_view :: "jval \<Rightarrow> db \<Rightarrow> error + quotation_view" where
  "load_view quotation_id d =
     (case db_select [(''id'', quotation_id)] (quotations d) of
        [] \<Rightarrow> Inl IndexError
      | result # _ \<Rightarrow>
          Inr \<lparr>qv_header = result,
               qv_items = db_select [(''quotation_id'', quotation_id)] (quotation_items d),
               qv_customer = embedded_customer d result\<rparr>)"

text \<open>The dictionary \<open>new_quotation\<close> of \<open>create_quotation\<close>.\<close>

definition new_quotation ::
  "jval \<Rightarrow> pystr \<Rightarrow> QuotationCreate \<Rightarrow> pyfloat \<Rightarrow> pyfloat \<Rightarrow> pyfloat \<Rightarrow> row"
where
  "new_quotation uid number quotation subtotal tax_amount total' =
     [''user_id'' \<mapsto> uid,
      ''customer_id'' \<mapsto> JStr (customer_id quotation),
      ''quotation_number'' \<mapsto> JStr number,
      ''subtotal'' \<mapsto> JFloat subtotal,
      ''discount_amount'' \<mapsto> JFloat (discount_amount quotation),
      ''tax_rate'' \<mapsto> JInt (tax_rate quotation),
      ''tax_amount'' \<mapsto> JFloat tax_amount,
      ''total'' \<mapsto> JFloat total',
      ''notes'' \<mapsto> opt_str (notes' quotation),
      ''status'' \<mapsto> JStr (asc ''pending''),
      ''payment_status'' \<mapsto> JStr (asc ''unpaid'')]"

text \<open>The dictionary \<open>update_data\<close> of \<open>update_quotation\<close>.\<close>

definition update_data :: "QuotationCreate \<Rightarrow> pyfloat \<Rightarrow> pyfloat \<Rightarrow> pyfloat \<Rightarrow> row" where
  "update_data quotation subtotal tax_amount total' =
     [''customer_id'' \<mapsto> JStr (customer_id quotation),
      ''subtotal'' \<mapsto> JFloat subtotal,
      ''discount_amount'' \<mapsto> JFloat (discount_amount quotation),
      ''tax_rate'' \<mapsto> JInt (tax_rate quotation),
      ''tax_amount'' \<mapsto> JFloat tax_amount,
      ''total'' \<mapsto> JFloat total',
      ''notes'' \<mapsto> opt_str (notes' quotation)]"

definition create_quotation ::
  "environ \<Rightarrow> QuotationCreate \<Rightarrow> row \<Rightarrow> db \<Rightarrow> (error + quotation_view) \<times> db"
where
  "create_quotation env quotation current_user d =
     (case amounts quotation of
        Inl e \<Rightarrow> (Inl e, d)
      | Inr (subtotal, taxable_amount, tax_amount, total') \<Rightarrow>
         (case getitem current_user ''id'' of
            Inl e \<Rightarrow> (Inl e, d)
          | Inr uid \<Rightarrow>
             let (data, qs) =
                   db_insert (gen_row env)
                     (new_quotation uid
                        (generate_quotation_number (now env) (random_num env))
                        quotation subtotal tax_amount total')
                     (quotations d);
                 d1 = d\<lparr>quotations := qs\<rparr>
             in case data of
                  [] \<Rightarrow> (Inl (HTTPException 500 ''Failed to create quotation''), d1)
                | created # _ \<Rightarrow>
                   (case getitem created ''id'' of
                      Inl e \<Rightarrow> (Inl e, d1)
                    | Inr quotation_id \<Rightarrow>
                       let items_data = map (item_row quotation_id) (items quotation);
                           (inserted, its) =
                              db_insert_many (gen_items env) items_data (quotation_items d1);
                           d2 = d1\<lparr>quotation_items := its\<rparr>
                       in (load_view quotation_id d2, d2))))"


definition update_quotation ::
  "environ \<Rightarrow> pystr \<Rightarrow> QuotationCreate \<Rightarrow> row \<Rightarrow> db \<Rightarrow> (error + quotation_view) \<times> db"
where
  "update_quotation env quotation_id quotation current_user d =
     (case amounts quotation of
        Inl e \<Rightarrow> (Inl e, d)
      | Inr (subtotal, taxable_amount, tax_amount, total') \<Rightarrow>
         (case getitem current_user ''id'' of
              Inl e \<Rightarrow> (Inl e, d)
            | Inr uid \<Rightarrow>
               let (data, qs) = db_update [(''id'', JStr quotation_id), (''user_id'', uid)]
                                  (update_data quotation subtotal tax_amount total')
                                  (quotations d);
                   d1 = d\<lparr>quotations := qs\<rparr>
               in case data of
                    [] \<Rightarrow> (Inl (HTTPException 404 ''Quotation not found''), d1)
                  | updated # _ \<Rightarrow>
                     let (deleted, its) = db_delete [(''quotation_id'', JStr quotation_id)]
                                            (quotation_items d1);
                         d2 = d1\<lparr>quotation_items := its\<rparr>;
                         items_data = map (item_row (JStr quotation_id)) (items quotation);
                         (inserted, its') =
                            db_insert_many (gen_items env) items_data (quotation_items d2);
                         d3 = d2\<lparr>quotation_items := its'\<rparr>
                     in (load_view (JStr quotation_id) d3, d3)))"

subsection \<open>Delete and payment update\<close>


text \<open>
  A field of a request model is either left out of the request body or given;
  \<open>.dict()\<close> fills a field that was left out with its default, \<open>.dict(exclude_unset=True)\<close>
  leaves it out of the dictionary.
\<close>

datatype 'a given = Unset | Given 'a

definition all_field :: "string \<Rightarrow> ('a \<Rightarrow> jval) \<Rightarrow> 'a \<Rightarrow> 'a given \<Rightarrow> row" where
  "all_field k f dflt g = [k \<mapsto> f (case g of Unset \<Rightarrow> dflt | Given v \<Rightarrow> v)]"






section \<open>Customers, products and reminders\<close>













section \<open>Document rendering\<close>

subsection \<open>Values in text\<close>

definition ebind :: "error + 'a \<Rightarrow> ('a \<Rightarrow> error + 'b) \<Rightarrow> error + 'b" where
  "ebind m f = (case m of Inl e \<Rightarrow> Inl e | Inr v \<Rightarrow> f v)"

text \<open>\<open>d.get(k, default)\<close>.\<close>

definition row_get :: "row \<Rightarrow> string \<Rightarrow> jval \<Rightarrow> jval" where
  "row_get r k dflt = (case r k of None \<Rightarrow> dflt | Some v \<Rightarrow> v)"

text \<open>The truth value of \<open>if v:\<close>.\<close>

fun truthy :: "jval \<Rightarrow> bool" where
  "truthy JNull = False"
| "truthy (JBool b) = b"
| "truthy (JInt i) = (i \<noteq> 0)"
| "truthy (JFloat (Finite s m e)) = (m \<noteq> 0)"
| "truthy (JFloat (Infinity s)) = True"
| "truthy (JFloat NaN) = True"
| "truthy (JStr s) = (s \<noteq> [])"








subsection \<open>Canvas\<close>









subsection \<open>The blocks of the page\<close>













section \<open>Payment statistics\<close>

text \<open>The float of an int in mixed arithmetic; an int beyond the float range raises.\<close>

definition int_to_float :: "int \<Rightarrow> error + pyfloat" where
  "int_to_float i =
     (case float_of_int i of
        Finite s m e \<Rightarrow> Inr (Finite s m e)
      | _ \<Rightarrow> Inl OverflowError)"

text \<open>A bool in arithmetic is the int 1 or 0.\<close>

fun bool_as_int :: "jval \<Rightarrow> jval" where
  "bool_as_int (JBool b) = JInt (if b then 1 else 0)"
| "bool_as_int v = v"

fun add_numbers :: "jval \<Rightarrow> jval \<Rightarrow> error + jval" where
  "add_numbers (JInt a) (JInt b) = Inr (JInt (a + b))"
| "add_numbers (JInt a) (JFloat y) = ebind (int_to_float a) (\<lambda>x. Inr (JFloat (fadd x y)))"
| "add_numbers (JFloat x) (JInt b) = ebind (int_to_float b) (\<lambda>y. Inr (JFloat (fadd x y)))"
| "add_numbers (JFloat x) (JFloat y) = Inr (JFloat (fadd x y))"
| "add_numbers x y = Inl TypeError"

text \<open>\<open>a + b\<close> on the values of a row: ints and floats add (a bool counts as an int),
  \<open>None\<close> and strings do not.\<close>

definition num_add :: "jval \<Rightarrow> jval \<Rightarrow> error + jval" where
  "num_add x y = add_numbers (bool_as_int x) (bool_as_int y)"

text \<open>\<open>sum(f(q) for q in rows if cond(q))\<close>, from the accumulator \<open>acc\<close> (the int \<open>0\<close> at
  the start).\<close>

fun sum_loop :: "(row \<Rightarrow> bool) \<Rightarrow> (row \<Rightarrow> error + jval) \<Rightarrow> jval \<Rightarrow> row list \<Rightarrow> error + jval" where
  "sum_loop cond f acc [] = Inr acc"
| "sum_loop cond f acc (q # qs) =
     (if cond q
      then ebind (f q) (\<lambda>x. ebind (num_add acc x) (\<lambda>acc'. sum_loop cond f acc' qs))
      else sum_loop cond f acc qs)"

text \<open>\<open>q.get("payment_status") == s\<close>.\<close>

definition status_is :: "string \<Rightarrow> row \<Rightarrow> bool" where
  "status_is s q \<longleftrightarrow> row_get q ''payment_status'' JNull = JStr (asc s)"

text \<open>\<open>q.get("payment_amount", 0) or q["total"]\<close>.\<close>

definition amount_or_total :: "row \<Rightarrow> error + jval" where
  "amount_or_total q =
     (let a = row_get q ''payment_amount'' (JInt 0)
      in if truthy a then Inr a else getitem q ''total'')"

record payment_statistics =
  total_expected :: jval
  total_received :: jval
  total_pending :: jval
  overdue_count :: jval

definition get_payment_statistics :: "row \<Rightarrow> db \<Rightarrow> (error + payment_statistics) \<times> db" where
  "get_payment_statistics current_user d =
     (case getitem current_user ''id'' of
        Inl e \<Rightarrow> (Inl e, d)
      | Inr uid \<Rightarrow>
         let rows = db_select [(''user_id'', uid)] (quotations d)
         in (ebind (sum_loop (\<lambda>q. True) (\<lambda>q. getitem q ''total'') (JInt 0) rows) (\<lambda>expected.
             ebind (sum_loop (status_is ''paid'') amount_or_total (JInt 0) rows) (\<lambda>received.
             ebind (sum_loop (status_is ''unpaid'') (\<lambda>q. getitem q ''total'') (JInt 0) rows)
               (\<lambda>pending.
             ebind (sum_loop (status_is ''unpaid'') (\<lambda>q. Inr (JInt 1)) (JInt 0) rows)
               (\<lambda>overdue.
               Inr \<lparr>total_expected = expected, total_received = received,
                    total_pending = pending, overdue_count = overdue\<rparr>)))),
             d))"

section \<open>Specification predicates and fixtures\<close>


text \<open>The item rows that the datastore holds for the items of a request: the snapshot
  of each item, under the columns generated for it, in the order of the request.\<close>

definition new_items :: "environ \<Rightarrow> jval \<Rightarrow> QuotationCreate \<Rightarrow> row list" where
  "new_items env qid q =
     map (\<lambda>(i, r). gen_items env i ++ r) (enumerate 0 (map (item_row qid) (items q)))"

text \<open>A small datastore and a request, the example of the specification: two items
  with totals 100 and 50, no discount, a tax rate of 20.\<close>

definition demo_user :: row where
  "demo_user = [''id'' \<mapsto> JStr (asc ''u1''), ''email'' \<mapsto> JStr (asc ''a@b.c''),
                ''full_name'' \<mapsto> JStr (asc ''Ann'')]"

definition demo_other :: row where
  "demo_other = [''id'' \<mapsto> JStr (asc ''u2''), ''email'' \<mapsto> JStr (asc ''x@y.z''),
                 ''full_name'' \<mapsto> JStr (asc ''Bob'')]"

definition demo_items :: "QuotationItem list" where
  "demo_items =
     [\<lparr>product_name = asc ''pen'', specifications = Some (asc ''blue''), quantity = 2,
       unit = asc ''adet'', unit_price = float_of_int 50, total = float_of_int 100\<rparr>,
      \<lparr>product_name = asc ''ink'', specifications = None, quantity = 1,
       unit = asc ''adet'', unit_price = float_of_int 50, total = float_of_int 50\<rparr>]"

definition demo_request :: QuotationCreate where
  "demo_request = \<lparr>customer_id = asc ''c1'', items = demo_items,
                    discount_amount = float_of_int 0, tax_rate = 20,
                    notes' = Some (asc ''thanks'')\<rparr>"

definition demo_env :: environ where
  "demo_env = \<lparr>now = \<lparr>year = 2024, month = 5, day = 17, hour = 9, minute = 30, second = 7\<rparr>,
                random_num = 4821,
                gen_row = [''id'' \<mapsto> JStr (asc ''q2''),
                           ''created_at'' \<mapsto> JStr (asc ''2024-05-17T09:30:07'')],
                gen_items = (\<lambda>i. [''id'' \<mapsto> JInt (int i)])\<rparr>"

definition demo_db :: db where
  "demo_db =
     \<lparr>users = [demo_user, demo_other],
      customers = [[''id'' \<mapsto> JStr (asc ''c1''), ''user_id'' \<mapsto> JStr (asc ''u1''),
                    ''name'' \<mapsto> JStr (asc ''Cem'')]],
      products = [[''id'' \<mapsto> JStr (asc ''p1''), ''user_id'' \<mapsto> JStr (asc ''u1''),
                   ''name'' \<mapsto> JStr (asc ''pen'')]],
      quotations = [[''id'' \<mapsto> JStr (asc ''q1''), ''user_id'' \<mapsto> JStr (asc ''u1''),
                     ''customer_id'' \<mapsto> JStr (asc ''c1''),
                     ''quotation_number'' \<mapsto> JStr (asc ''Q-20240516120000-1234''),
                     ''subtotal'' \<mapsto> JFloat (float_of_int 10),
                     ''discount_amount'' \<mapsto> JFloat (float_of_int 0),
                     ''tax_rate'' \<mapsto> JInt 0,
                     ''tax_amount'' \<mapsto> JFloat (float_of_int 0),
                     ''total'' \<mapsto> JFloat (float_of_int 10),
                     ''notes'' \<mapsto> JNull,
                     ''status'' \<mapsto> JStr (asc ''pending''),
                     ''payment_status'' \<mapsto> JStr (asc ''unpaid''),
                     ''created_at'' \<mapsto> JStr (asc ''2024-05-16T12:00:00'')]],
      quotation_items = [[''id'' \<mapsto> JInt 7, ''quotation_id'' \<mapsto> JStr (asc ''q1''),
                          ''product_name'' \<mapsto> JStr (asc ''old''),
                          ''specifications'' \<mapsto> JNull, ''quantity'' \<mapsto> JInt 1,
                          ''unit'' \<mapsto> JStr (asc ''adet''),
                          ''unit_price'' \<mapsto> JFloat (float_of_int 10),
                          ''total'' \<mapsto> JFloat (float_of_int 10)]],
      reminders = [[''id'' \<mapsto> JStr (asc ''r1''), ''user_id'' \<mapsto> JStr (asc ''u1''),
                    ''quotation_id'' \<mapsto> JStr (asc ''q1''),
                    ''message'' \<mapsto> JStr (asc ''call''), ''sent'' \<mapsto> JBool False]]\<rparr>"

definition demo_created :: "(error + quotation_view) \<times> db" where
  "demo_created = create_quotation demo_env demo_request demo_user demo_db"

definition demo_updated :: "(error + quotation_view) \<times> db" where
  "demo_updated = update_quotation demo_env (asc ''q1'') demo_request demo_user demo_db"

text \<open>A request with one item of total 3, no discount and a tax rate of 19, and a request
  without items.\<close>

definition drift_request :: QuotationCreate where
  "drift_request =
     \<lparr>customer_id = asc ''c1'',
      items = [\<lparr>product_name = asc ''pen'', specifications = None, quantity = 1,
                unit = asc ''adet'', unit_price = float_of_int 3, total = float_of_int 3\<rparr>],
      discount_amount = float_of_int 0, tax_rate = 19, notes' = None\<rparr>"









text \<open>
  The statistics in the words of the claim, for rows whose \<open>total\<close> is a float and whose
  \<open>payment_amount\<close> is missing, null or a float. \<open>total_of\<close> is the total of a row,
  \<open>received_of\<close> the recorded payment amount when it is present and not zero and the total
  otherwise, and \<open>float_total\<close> the sum of a list of floats as \<open>sum\<close> returns it: the int
  \<open>0\<close> for no element.
\<close>

definition float_row :: "row \<Rightarrow> bool" where
  "float_row q \<longleftrightarrow>
     (case q ''total'' of Some (JFloat t) \<Rightarrow> True | _ \<Rightarrow> False)
   \<and> (case q ''payment_amount'' of
        None \<Rightarrow> True | Some JNull \<Rightarrow> True | Some (JFloat a) \<Rightarrow> True | _ \<Rightarrow> False)"

definition total_of :: "row \<Rightarrow> pyfloat" where
  "total_of q = (case q ''total'' of Some (JFloat t) \<Rightarrow> t | _ \<Rightarrow> float_of_int 0)"

definition received_of :: "row \<Rightarrow> pyfloat" where
  "received_of q =
     (case q ''payment_amount'' of
        Some (JFloat a) \<Rightarrow> if truthy (JFloat a) then a else total_of q
      | _ \<Rightarrow> total_of q)"

definition float_total :: "pyfloat list \<Rightarrow> jval" where
  "float_total xs = (if xs = [] then JInt 0 else JFloat (py_sum xs))"

definition demo_stats_db :: db where
  "demo_stats_db =
     \<lparr>users = [demo_user], customers = [], products = [],
      quotations =
        [[''id'' \<mapsto> JStr (asc ''q1''), ''user_id'' \<mapsto> JStr (asc ''u1''),
          ''total'' \<mapsto> JFloat (float_of_int 100), ''payment_status'' \<mapsto> JStr (asc ''paid''),
          ''payment_amount'' \<mapsto> JFloat (float_of_int 0)],
         [''id'' \<mapsto> JStr (asc ''q2''), ''user_id'' \<mapsto> JStr (asc ''u1''),
          ''total'' \<mapsto> JFloat (float_of_int 50), ''payment_status'' \<mapsto> JStr (asc ''unpaid''),
          ''payment_amount'' \<mapsto> JNull],
         [''id'' \<mapsto> JStr (asc ''q3''), ''user_id'' \<mapsto> JStr (asc ''u1''),
          ''total'' \<mapsto> JFloat (float_of_int 30),
          ''payment_status'' \<mapsto> JStr (asc ''partial''),
          ''payment_amount'' \<mapsto> JFloat (float_of_int 10)]],
      quotation_items = [], reminders = []\<rparr>"

section \<open>Evaluation and structure lemmas\<close>

lemmas float_eval = float_of_int_def round_dyadic_def round_ratio_def bitlen.simps pack_def
  round_half_even_def Let_def int_truediv_def fsub_def signed_def py_sum_def

lemma result_split: "\<not> isl (fst X) \<Longrightarrow> X = (Inr (projr (fst X)), snd X)"
  by (cases X; cases "fst X") auto

lemma amounts_Inr:
  "amounts q = Inr (sub, tx, tax, tot) \<longleftrightarrow>
     (\<exists>rate. int_truediv (tax_rate q) 100 = Inr rate
        \<and> sub = py_sum (map total (items q))
        \<and> tx = fsub sub (discount_amount q)
        \<and> tax = fmul tx rate \<and> tot = fadd tx tax)"
  by (auto simp: amounts_def Let_def split: sum.splits)

lemma create_quotation_Inr:
  assumes "create_quotation env q u d = (Inr v, d')"
  shows "\<exists>sub tx tax tot uid qid.
           amounts q = Inr (sub, tx, tax, tot) \<and> u ''id'' = Some uid
         \<and> (gen_row env ++ new_quotation uid
               (generate_quotation_number (now env) (random_num env)) q sub tax tot) ''id''
             = Some qid
         \<and> quotations d' = quotations d @
              [gen_row env ++ new_quotation uid
                 (generate_quotation_number (now env) (random_num env)) q sub tax tot]
         \<and> quotation_items d' = quotation_items d @ new_items env qid q
         \<and> users d' = users d \<and> customers d' = customers d \<and> products d' = products d
         \<and> reminders d' = reminders d
         \<and> load_view qid d' = Inr v"
  using assms
  by (auto simp: create_quotation_def db_insert_def new_items_def
        db_insert_many_def Let_def getitem_def
      split: sum.splits prod.splits list.splits option.splits)

lemma update_quotation_Inr:
  assumes "update_quotation env qid q u d = (Inr v, d')"
  shows "\<exists>sub tx tax tot uid.
           amounts q = Inr (sub, tx, tax, tot) \<and> u ''id'' = Some uid
         \<and> fst (db_update [(''id'', JStr qid), (''user_id'', uid)] (update_data q sub tax tot)
                  (quotations d)) \<noteq> []
         \<and> quotations d' = snd (db_update [(''id'', JStr qid), (''user_id'', uid)]
                                  (update_data q sub tax tot) (quotations d))
         \<and> quotation_items d' =
              filter (\<lambda>r. \<not> matches [(''quotation_id'', JStr qid)] r) (quotation_items d)
                @ new_items env (JStr qid) q
         \<and> users d' = users d \<and> customers d' = customers d \<and> products d' = products d
         \<and> reminders d' = reminders d
         \<and> load_view (JStr qid) d' = Inr v"
  using assms
  by (auto simp: update_quotation_def db_delete_def new_items_def
        db_insert_many_def Let_def getitem_def
      split: sum.splits prod.splits list.splits option.splits)



lemma update_data_keeps [simp]:
  "(r ++ update_data q sub tax tot) ''id'' = r ''id''"
  "(r ++ update_data q sub tax tot) ''user_id'' = r ''user_id''"
  by (simp_all add: update_data_def map_add_def)


lemma db_update_data_nonempty:
  "fst (db_update fs upd t) \<noteq> [] \<longleftrightarrow> (\<exists>r\<in>set t. matches fs r)"
  by (auto simp: db_update_def filter_empty_conv)




section \<open>Registration with a used email\<close>

lemma matches_email:
  "matches [(''email'', JStr e)] r \<longleftrightarrow> r ''email'' = Some (JStr e)"
  by simp

text \<open>
  Claim C7. When some stored user has the email of the request, \<open>register\<close> answers with
  the error "Email already registered" (status 400, the duplicate-email conflict of the
  error taxonomy) and the datastore, the user table included, is left as it was.
\<close>

theorem register_duplicate_email:
  assumes "u \<in> set (users d)" and "u ''email'' = Some (JStr (uc_email user))"
  shows "register hash_password create_access_token gen user d =
           (Inl (HTTPException 400 ''Email already registered''), d)"
proof -
  from assms have "u \<in> set (db_select [(''email'', JStr (uc_email user))] (users d))"
    by (simp add: db_select_def)
  then have "db_select [(''email'', JStr (uc_email user))] (users d) \<noteq> []"
    by auto
  then show ?thesis
    by (simp add: register_def)
qed

theorem register_duplicate_email_witness:
  "register (\<lambda>p. p) (\<lambda>v. asc ''tok'') Map.empty
     \<lparr>uc_email = asc ''a@b.c'', uc_password = asc ''pw'', uc_full_name = asc ''Ann''\<rparr>
     \<lparr>users = [[''id'' \<mapsto> JStr (asc ''u1''), ''email'' \<mapsto> JStr (asc ''a@b.c'')]],
      customers = [], products = [], quotations = [], quotation_items = [], reminders = []\<rparr>
   = (Inl (HTTPException 400 ''Email already registered''),
      \<lparr>users = [[''id'' \<mapsto> JStr (asc ''u1''), ''email'' \<mapsto> JStr (asc ''a@b.c'')]],
       customers = [], products = [], quotations = [], quotation_items = [], reminders = []\<rparr>)"
  using register_duplicate_email
    [of "[''id'' \<mapsto> JStr (asc ''u1''), ''email'' \<mapsto> JStr (asc ''a@b.c'')]"
        "\<lparr>users = [[''id'' \<mapsto> JStr (asc ''u1''), ''email'' \<mapsto> JStr (asc ''a@b.c'')]],
          customers = [], products = [], quotations = [], quotation_items = [], reminders = []\<rparr>"
        "\<lparr>uc_email = asc ''a@b.c'', uc_password = asc ''pw'', uc_full_name = asc ''Ann''\<rparr>"
        "\<lambda>p. p" "\<lambda>v. asc ''tok''" Map.empty]
  by simp

section \<open>Totality of create and update\<close>

lemma new_quotation_no_id [simp]: "(g ++ new_quotation uid n q sub tax tot) ''id'' = g ''id''"
  by (simp add: new_quotation_def map_add_def)

lemma create_quotation_succeeds:
  assumes "int_truediv (tax_rate q) 100 = Inr rate" and "u ''id'' = Some uid"
    and "gen_row env ''id'' = Some qid"
  shows "\<not> isl (fst (create_quotation env q u d))"
  using assms
  by (simp add: create_quotation_def amounts_def Let_def getitem_def db_insert_def
        db_insert_many_def load_view_def db_select_def split: list.splits)

lemma update_quotation_succeeds:
  assumes "int_truediv (tax_rate q) 100 = Inr rate" and "u ''id'' = Some uid"
    and r: "r \<in> set (quotations d)" "r ''id'' = Some (JStr qid)" "r ''user_id'' = Some uid"
  shows "\<not> isl (fst (update_quotation env qid q u d))"
proof -
  let ?fs = "[(''id'', JStr qid), (''user_id'', uid)]"
  let ?upd = "update_data q (py_sum (map total (items q)))
                (fmul (fsub (py_sum (map total (items q))) (discount_amount q)) rate)
                (fadd (fsub (py_sum (map total (items q))) (discount_amount q))
                   (fmul (fsub (py_sum (map total (items q))) (discount_amount q)) rate))"
  from r have m: "matches ?fs r" by simp
  with r have ne: "filter (matches ?fs) (quotations d) \<noteq> []"
    by (auto simp: filter_empty_conv)
  have "r ++ ?upd \<in> set (map (\<lambda>r. if matches ?fs r then r ++ ?upd else r) (quotations d))"
    using r(1) m by (auto intro!: image_eqI [where x = r])
  moreover have "matches [(''id'', JStr qid)] (r ++ ?upd)"
    using r by simp
  ultimately have sel: "filter (matches [(''id'', JStr qid)])
       (map (\<lambda>r. if matches ?fs r then r ++ ?upd else r) (quotations d)) \<noteq> []"
    unfolding filter_empty_conv by blast
  from ne obtain x xs where x: "filter (matches ?fs) (quotations d) = x # xs"
    by (cases "filter (matches ?fs) (quotations d)") auto
  from sel obtain y ys where y: "filter (matches [(''id'', JStr qid)])
       (map (\<lambda>r. if matches ?fs r then r ++ ?upd else r) (quotations d)) = y # ys"
    by (cases "filter (matches [(''id'', JStr qid)])
       (map (\<lambda>r. if matches ?fs r then r ++ ?upd else r) (quotations d))") auto
  show ?thesis
    using assms(1,2) x y
    by (simp add: update_quotation_def amounts_def Let_def getitem_def db_update_def
          db_delete_def db_insert_many_def load_view_def db_select_def)
qed

section \<open>Derived amounts\<close>


lemma demo_rate: "int_truediv (tax_rate demo_request) 100 = Inr (Finite False 7205759403792794 (- 55))"
  by (simp add: demo_request_def float_eval)

lemma demo_created_ok: "demo_created = (Inr (projr (fst demo_created)), snd demo_created)"
  unfolding demo_created_def
  by (rule result_split, rule create_quotation_succeeds [OF demo_rate])
     (simp_all add: demo_user_def demo_env_def)

lemma demo_updated_ok: "demo_updated = (Inr (projr (fst demo_updated)), snd demo_updated)"
  unfolding demo_updated_def
  by (rule result_split,
      rule update_quotation_succeeds [OF demo_rate, where uid = "JStr (asc ''u1'')"
        and r = "hd (quotations demo_db)"])
     (simp_all add: demo_user_def demo_db_def)


section \<open>Exactness and repetition\<close>

lemma db_update_no_match:
  "\<forall>r\<in>set t. \<not> matches fs r \<Longrightarrow> snd (db_update fs upd t) = t"
  by (simp add: db_update_def map_idI)

lemma db_update_fst_empty:
  "fst (db_update fs upd t) = [] \<Longrightarrow> snd (db_update fs upd t) = t"
  using db_update_data_nonempty [of fs upd t] db_update_no_match [of t fs upd] by blast

lemma update_quotation_snd:
  "snd (update_quotation env qid q u d) =
     (case amounts q of
        Inl e \<Rightarrow> d
      | Inr (sub, tx, tax, tot) \<Rightarrow>
         (case u ''id'' of
            None \<Rightarrow> d
          | Some uid \<Rightarrow>
             if \<exists>r\<in>set (quotations d). matches [(''id'', JStr qid), (''user_id'', uid)] r
             then d\<lparr>quotations :=
                       map (\<lambda>r. if matches [(''id'', JStr qid), (''user_id'', uid)] r
                                then r ++ update_data q sub tax tot else r) (quotations d),
                    quotation_items :=
                       filter (\<lambda>r. \<not> matches [(''quotation_id'', JStr qid)] r)
                         (quotation_items d) @ new_items env (JStr qid) q\<rparr>
             else d))"
proof (cases "amounts q")
  case (Inl e)
  then show ?thesis by (simp add: update_quotation_def)
next
  case (Inr a)
  obtain sub tx tax tot where a: "a = (sub, tx, tax, tot)" by (cases a) auto
  show ?thesis
  proof (cases "u ''id''")
    case None
    with Inr a show ?thesis by (simp add: update_quotation_def getitem_def)
  next
    case (Some uid)
    let ?fs = "[(''id'', JStr qid), (''user_id'', uid)]"
    show ?thesis
    proof (cases "\<exists>r\<in>set (quotations d). matches ?fs r")
      case True
      then have "filter (matches ?fs) (quotations d) \<noteq> []"
        by (simp add: filter_empty_conv)
      then obtain x xs where "filter (matches ?fs) (quotations d) = x # xs"
        by (cases "filter (matches ?fs) (quotations d)") auto
      with Inr a Some True show ?thesis
        by (simp add: update_quotation_def getitem_def db_update_def db_delete_def
              db_insert_many_def new_items_def Let_def del: matches.simps)
    next
      case False
      then have e: "filter (matches ?fs) (quotations d) = []"
        by (simp add: filter_empty_conv)
      from False have "map (\<lambda>r. if matches ?fs r then r ++ update_data q sub tax tot else r)
                         (quotations d) = quotations d"
        by (intro map_idI) (simp del: matches.simps)
      with Inr a Some False e show ?thesis
        by (simp add: update_quotation_def getitem_def db_update_def Let_def
              del: matches.simps)
    qed
  qed
qed

lemma item_row_quotation_id [simp]: "(g ++ item_row qid it) ''quotation_id'' = Some qid"
  by (simp add: item_row_def item_dict_def map_add_def)

lemma new_items_match:
  "r \<in> set (new_items env qid q) \<Longrightarrow> matches [(''quotation_id'', qid)] r"
  by (auto simp: new_items_def enumerate_eq_zip dest!: set_zip_rightD)

lemma filter_new_items [simp]:
  "filter (\<lambda>r. \<not> matches [(''quotation_id'', qid)] r) (new_items env qid q) = []"
  unfolding filter_empty_conv using new_items_match by blast

lemma map_add_twice: "(r ++ u) ++ u = (r ++ u :: row)"
  by (rule ext) (simp add: map_add_def split: option.split)

lemma update_row_idem:
  "(\<lambda>r. if matches [(''id'', i), (''user_id'', w)] r
        then r ++ update_data q sub tax tot else r)
     ((\<lambda>r. if matches [(''id'', i), (''user_id'', w)] r
        then r ++ update_data q sub tax tot else r) r)
   = (\<lambda>r. if matches [(''id'', i), (''user_id'', w)] r
        then r ++ update_data q sub tax tot else r) r"
  "matches [(''id'', i), (''user_id'', w)]
     ((\<lambda>r. if matches [(''id'', i), (''user_id'', w)] r
        then r ++ update_data q sub tax tot else r) r)
   \<longleftrightarrow> matches [(''id'', i), (''user_id'', w)] r"
  by (simp_all add: map_add_twice)

lemma update_quotation_idem:
  "snd (update_quotation env qid q u (snd (update_quotation env qid q u d)))
     = snd (update_quotation env qid q u d)"
proof (cases "amounts q")
  case (Inl e)
  then show ?thesis by (simp add: update_quotation_snd)
next
  case (Inr a)
  obtain sub tx tax tot where a: "a = (sub, tx, tax, tot)" by (cases a) auto
  show ?thesis
  proof (cases "u ''id''")
    case None
    with Inr a show ?thesis by (simp add: update_quotation_snd)
  next
    case (Some uid)
    let ?fs = "[(''id'', JStr qid), (''user_id'', uid)]"
    let ?f = "\<lambda>r. if matches ?fs r then r ++ update_data q sub tax tot else r"
    show ?thesis
    proof (cases "\<exists>r\<in>set (quotations d). matches ?fs r")
      case False
      with Inr a Some show ?thesis by (simp add: update_quotation_snd del: matches.simps)
    next
      case True
      let ?d1 = "d\<lparr>quotations := map ?f (quotations d),
                     quotation_items :=
                       filter (\<lambda>r. \<not> matches [(''quotation_id'', JStr qid)] r)
                         (quotation_items d) @ new_items env (JStr qid) q\<rparr>"
      from Inr a Some True have d1: "snd (update_quotation env qid q u d) = ?d1"
        by (simp add: update_quotation_snd del: matches.simps)
      from True obtain r where r: "r \<in> set (quotations d)" "matches ?fs r" by blast
      then have "?f r \<in> set (quotations ?d1)" by (simp del: matches.simps)
      moreover have "matches ?fs (?f r)"
        using r(2) update_row_idem(2) [where i = "JStr qid" and w = uid and r = r] by blast
      ultimately have True': "\<exists>r\<in>set (quotations ?d1). matches ?fs r" by blast
      have mm: "map ?f (map ?f (quotations d)) = map ?f (quotations d)"
        using update_row_idem(1) [where i = "JStr qid" and w = uid]
        by (simp del: matches.simps)
      from Inr a Some True' have "snd (update_quotation env qid q u ?d1) =
          ?d1\<lparr>quotations := map ?f (quotations ?d1),
               quotation_items :=
                 filter (\<lambda>r. \<not> matches [(''quotation_id'', JStr qid)] r)
                   (quotation_items ?d1) @ new_items env (JStr qid) q\<rparr>"
        by (simp add: update_quotation_snd del: matches.simps)
      also have "\<dots> = ?d1"
        using mm by (simp del: matches.simps)
      finally show ?thesis unfolding d1 .
    qed
  qed
qed

lemma update_quotation_repeat:
  "((\<lambda>d. snd (update_quotation env qid q u d)) ^^ Suc n) d
     = snd (update_quotation env qid q u d)"
proof (induction n)
  case 0
  show ?case by simp
next
  case (Suc n)
  have "((\<lambda>d. snd (update_quotation env qid q u d)) ^^ Suc (Suc n)) d
        = snd (update_quotation env qid q u
             (((\<lambda>d. snd (update_quotation env qid q u d)) ^^ Suc n) d))"
    by simp
  also have "\<dots> = snd (update_quotation env qid q u (snd (update_quotation env qid q u d)))"
    by (simp only: Suc.IH)
  also have "\<dots> = snd (update_quotation env qid q u d)"
    by (rule update_quotation_idem)
  finally show ?case .
qed

lemma drift_amounts:
  "amounts drift_request =
     Inr (float_of_int 3, float_of_int 3, Finite False 5134103575202366 (- 53),
          Finite False 8038925334856336 (- 51))"
  by (simp add: drift_request_def amounts_def float_eval)

text \<open>
  Claim C2, as stated, fails. For one item of total 3, no discount and rate 19 the
  program computes the tax as \<open>3 * 0.19 = 0.5700000000000001\<close> and the total as
  \<open>3.5700000000000003\<close>, the float \<open>8038925334856336 * 2\<^sup>-\<^sup>5\<^sup>1\<close>. The exact value of
  \<open>(subtotal - d) + (subtotal - d) * r / 100\<close> is \<open>357 / 100\<close>, which the total is not; nor
  is the total the float obtained by evaluating that expression from left to right in
  float arithmetic, \<open>3 + 57 / 100\<close>.
\<close>

theorem total_not_exact:
  "amounts drift_request =
     Inr (float_of_int 3, float_of_int 3, Finite False 5134103575202366 (- 53),
          Finite False 8038925334856336 (- 51))
 \<and> fval (float_of_int 3) = Some 3
 \<and> fval (discount_amount drift_request) = Some 0
 \<and> tax_rate drift_request = 19
 \<and> fval (Finite False 8038925334856336 (- 51)) \<noteq> Some ((3 - 0) + (3 - 0) * 19 / 100)
 \<and> Finite False 8038925334856336 (- 51)
      \<noteq> fadd (float_of_int 3) (round_ratio False (3 * 19) 100)"
proof -
  have "fval (float_of_int 3) = Some 3" by (simp add: float_eval)
  moreover have "fval (discount_amount drift_request) = Some 0"
    by (simp add: drift_request_def float_eval)
  moreover have "tax_rate drift_request = 19" by (simp add: drift_request_def)
  moreover have "fval (Finite False 8038925334856336 (- 51))
                   \<noteq> Some ((3 - 0) + (3 - 0) * 19 / 100)"
    by simp
  moreover have "Finite False 8038925334856336 (- 51)
      \<noteq> fadd (float_of_int 3) (round_ratio False (3 * 19) 100)"
    by (simp add: float_eval)
  ultimately show ?thesis using drift_amounts by (intro conjI)
qed

text \<open>
  Claim C2, amended. Whenever the calculator returns, the total is the float
  \<open>(subtotal - d) + (subtotal - d) * (r / 100)\<close>, each of the four operations rounded to
  binary64; and repeating the recomputation does not drift: running \<open>update_quotation\<close>
  with the same request any number of times leaves the datastore that the first run
  left.
\<close>

theorem total_rounded_no_drift:
  assumes "amounts q = Inr (sub, tx, tax, tot)"
  shows "(\<exists>rate. int_truediv (tax_rate q) 100 = Inr rate
            \<and> tot = fadd (fsub sub (discount_amount q))
                         (fmul (fsub sub (discount_amount q)) rate))
       \<and> ((\<lambda>d. snd (update_quotation env qid q u d)) ^^ Suc n) d
            = snd (update_quotation env qid q u d)"
  using assms update_quotation_repeat [where env = env and qid = qid and q = q and u = u
      and n = n and d = d]
  by (auto simp: amounts_Inr)

theorem total_rounded_no_drift_witness:
  "amounts drift_request =
     Inr (float_of_int 3, float_of_int 3, Finite False 5134103575202366 (- 53),
          Finite False 8038925334856336 (- 51))
 \<and> (\<exists>rate. int_truediv (tax_rate drift_request) 100 = Inr rate
        \<and> Finite False 8038925334856336 (- 51)
            = fadd (fsub (float_of_int 3) (discount_amount drift_request))
                   (fmul (fsub (float_of_int 3) (discount_amount drift_request)) rate))
 \<and> ((\<lambda>d. snd (update_quotation demo_env (asc ''q1'') drift_request demo_user d)) ^^ Suc 999)
      demo_db
    = snd (update_quotation demo_env (asc ''q1'') drift_request demo_user demo_db)"
  using total_rounded_no_drift [OF drift_amounts, where env = demo_env and qid = "asc ''q1''"
      and u = demo_user and n = 999 and d = demo_db]
    drift_amounts
  by (intro conjI) (elim conjE; assumption)+

section \<open>Empty item lists\<close>







section \<open>Replacement of items\<close>

lemma new_items_length [simp]: "length (new_items env qid q) = length (items q)"
  by (simp add: new_items_def)

lemma new_items_nth:
  "i < length (items q) \<Longrightarrow>
     new_items env qid q ! i = gen_items env i ++ item_row qid (items q ! i)"
  by (simp add: new_items_def nth_enumerate_eq)

lemma select_new_items:
  "db_select [(''quotation_id'', qid)]
     (filter (\<lambda>r. \<not> matches [(''quotation_id'', qid)] r) t @ new_items env qid q)
   = new_items env qid q"
proof -
  have "filter (matches [(''quotation_id'', qid)]) (new_items env qid q) = new_items env qid q"
    using new_items_match by (intro filter_True) blast
  moreover have "filter (matches [(''quotation_id'', qid)])
                   (filter (\<lambda>r. \<not> matches [(''quotation_id'', qid)] r) t) = []"
    by (simp add: filter_empty_conv del: matches.simps)
  ultimately show ?thesis by (simp add: db_select_def del: matches.simps)
qed

lemma load_view_items:
  "load_view qid d = Inr v \<Longrightarrow>
     qv_items v = db_select [(''quotation_id'', qid)] (quotation_items d)"
  by (auto simp: load_view_def split: list.splits)

lemma item_row_fields:
  "(g ++ item_row qid it) ''product_name'' = Some (JStr (product_name it))"
  "(g ++ item_row qid it) ''specifications'' = Some (opt_str (specifications it))"
  "(g ++ item_row qid it) ''quantity'' = Some (JInt (quantity it))"
  "(g ++ item_row qid it) ''unit'' = Some (JStr (unit it))"
  "(g ++ item_row qid it) ''unit_price'' = Some (JFloat (unit_price it))"
  "(g ++ item_row qid it) ''total'' = Some (JFloat (total it))"
  by (simp_all add: item_row_def item_dict_def map_add_def)

text \<open>
  Claim C3. After a successful \<open>update_quotation\<close> with replacement items \<open>items q\<close>, the
  item table is what it held for other quotations, in its old order, followed by one row
  per element of \<open>items q\<close>, in the order of the request; selecting the items of the
  quotation returns exactly these new rows, and so does the response; the \<open>i\<close>-th new row
  is the snapshot of the \<open>i\<close>-th item: it carries the quotation identifier and the six
  fields of the item.
\<close>

theorem update_replaces_items:
  assumes "update_quotation env qid q u d = (Inr v, d')"
  shows "quotation_items d' =
           filter (\<lambda>r. r ''quotation_id'' \<noteq> Some (JStr qid)) (quotation_items d)
             @ new_items env (JStr qid) q
       \<and> db_select [(''quotation_id'', JStr qid)] (quotation_items d')
           = new_items env (JStr qid) q
       \<and> qv_items v = new_items env (JStr qid) q
       \<and> length (new_items env (JStr qid) q) = length (items q)
       \<and> (\<forall>i<length (items q).
             (new_items env (JStr qid) q ! i) ''quotation_id'' = Some (JStr qid)
           \<and> (new_items env (JStr qid) q ! i) ''product_name''
               = Some (JStr (product_name (items q ! i)))
           \<and> (new_items env (JStr qid) q ! i) ''specifications''
               = Some (opt_str (specifications (items q ! i)))
           \<and> (new_items env (JStr qid) q ! i) ''quantity''
               = Some (JInt (quantity (items q ! i)))
           \<and> (new_items env (JStr qid) q ! i) ''unit'' = Some (JStr (unit (items q ! i)))
           \<and> (new_items env (JStr qid) q ! i) ''unit_price''
               = Some (JFloat (unit_price (items q ! i)))
           \<and> (new_items env (JStr qid) q ! i) ''total''
               = Some (JFloat (total (items q ! i))))"
proof -
  from update_quotation_Inr [OF assms] have
    its: "quotation_items d' =
            filter (\<lambda>r. \<not> matches [(''quotation_id'', JStr qid)] r) (quotation_items d)
              @ new_items env (JStr qid) q"
    and lv: "load_view (JStr qid) d' = Inr v"
    by blast+
  have sel: "db_select [(''quotation_id'', JStr qid)] (quotation_items d')
               = new_items env (JStr qid) q"
    unfolding its by (rule select_new_items)
  from load_view_items [OF lv] sel have v: "qv_items v = new_items env (JStr qid) q"
    by simp
  from its have its': "quotation_items d' =
           filter (\<lambda>r. r ''quotation_id'' \<noteq> Some (JStr qid)) (quotation_items d)
             @ new_items env (JStr qid) q"
    by simp
  have snap: "\<forall>i<length (items q).
             (new_items env (JStr qid) q ! i) ''quotation_id'' = Some (JStr qid)
           \<and> (new_items env (JStr qid) q ! i) ''product_name''
               = Some (JStr (product_name (items q ! i)))
           \<and> (new_items env (JStr qid) q ! i) ''specifications''
               = Some (opt_str (specifications (items q ! i)))
           \<and> (new_items env (JStr qid) q ! i) ''quantity''
               = Some (JInt (quantity (items q ! i)))
           \<and> (new_items env (JStr qid) q ! i) ''unit'' = Some (JStr (unit (items q ! i)))
           \<and> (new_items env (JStr qid) q ! i) ''unit_price''
               = Some (JFloat (unit_price (items q ! i)))
           \<and> (new_items env (JStr qid) q ! i) ''total''
               = Some (JFloat (total (items q ! i)))"
    by (simp add: new_items_nth item_row_fields)
  from its' sel v snap show ?thesis by simp
qed

theorem update_replaces_items_witness:
  "update_quotation demo_env (asc ''q1'') demo_request demo_user demo_db
     = (Inr (projr (fst demo_updated)), snd demo_updated)
 \<and> quotation_items (snd demo_updated) =
      filter (\<lambda>r. r ''quotation_id'' \<noteq> Some (JStr (asc ''q1''))) (quotation_items demo_db)
        @ new_items demo_env (JStr (asc ''q1'')) demo_request
 \<and> db_select [(''quotation_id'', JStr (asc ''q1''))] (quotation_items (snd demo_updated))
      = new_items demo_env (JStr (asc ''q1'')) demo_request
 \<and> qv_items (projr (fst demo_updated)) = new_items demo_env (JStr (asc ''q1'')) demo_request
 \<and> length (new_items demo_env (JStr (asc ''q1'')) demo_request) = 2
 \<and> quotation_items (snd demo_updated) = new_items demo_env (JStr (asc ''q1'')) demo_request"
proof -
  have u: "update_quotation demo_env (asc ''q1'') demo_request demo_user demo_db
             = (Inr (projr (fst demo_updated)), snd demo_updated)"
    using demo_updated_ok by (simp add: demo_updated_def)
  note inst = update_replaces_items [OF u]
  have old: "filter (\<lambda>r. r ''quotation_id'' \<noteq> Some (JStr (asc ''q1'')))
               (quotation_items demo_db) = []"
    by (simp add: demo_db_def)
  have len: "length (items demo_request) = 2"
    by (simp add: demo_request_def demo_items_def)
  from inst have a: "quotation_items (snd demo_updated) =
      filter (\<lambda>r. r ''quotation_id'' \<noteq> Some (JStr (asc ''q1''))) (quotation_items demo_db)
        @ new_items demo_env (JStr (asc ''q1'')) demo_request"
    by (elim conjE)
  from inst have b: "db_select [(''quotation_id'', JStr (asc ''q1''))]
        (quotation_items (snd demo_updated))
      = new_items demo_env (JStr (asc ''q1'')) demo_request"
    by (elim conjE)
  from inst have c: "qv_items (projr (fst demo_updated))
      = new_items demo_env (JStr (asc ''q1'')) demo_request"
    by (elim conjE)
  from inst len have l: "length (new_items demo_env (JStr (asc ''q1'')) demo_request) = 2"
    by (elim conjE) (simp only:)
  from a old have e: "quotation_items (snd demo_updated)
      = new_items demo_env (JStr (asc ''q1'')) demo_request"
    by (simp only: append_Nil)
  from u a b c l e show ?thesis by (intro conjI)
qed

section \<open>Quotation numbers\<close>

lemma digits4:
  assumes "1000 \<le> n" and "n \<le> 9999"
  shows "digits n = [48 + n div 1000, 48 + n div 100 mod 10, 48 + n div 10 mod 10, 48 + n mod 10]"
proof -
  have e1: "n div 10 div 10 = n div 100"
    using div_mult2_eq [of n 10 10] by simp
  have e2: "n div 100 div 10 = n div 1000"
    using div_mult2_eq [of n 100 10] by simp
  have n0: "\<not> n < 10" using assms by simp
  have "1000 div 10 \<le> n div 10" using assms(1) by (rule div_le_mono)
  then have n1: "\<not> n div 10 < 10" by simp
  have "1000 div 100 \<le> n div 100" using assms(1) by (rule div_le_mono)
  then have n2: "\<not> n div 100 < 10" by simp
  have "n div 1000 \<le> 9999 div 1000" using assms(2) by (rule div_le_mono)
  then have n3: "n div 1000 < 10" by simp
  have a: "digits n = digits (n div 10) @ [48 + n mod 10]"
    using n0 by (subst digits.simps) (simp only: if_False)
  have b: "digits (n div 10) = digits (n div 100) @ [48 + n div 10 mod 10]"
    using n1 e1 by (subst digits.simps) (simp only: if_False)
  have c: "digits (n div 100) = digits (n div 1000) @ [48 + n div 100 mod 10]"
    using n2 e2 by (subst digits.simps) (simp only: if_False)
  have d: "digits (n div 1000) = [48 + n div 1000]"
    using n3 by (subst digits.simps) (simp only: if_True)
  show ?thesis by (simp only: a b c d append.simps)
qed

lemma digits4_range:
  assumes "1000 \<le> n" and "n \<le> 9999"
  shows "length (digits n) = 4" and "\<forall>x\<in>set (digits n). 48 \<le> x \<and> x \<le> 57"
proof -
  have "n div 1000 \<le> 9999 div 1000" using assms(2) by (rule div_le_mono)
  then have "n div 1000 \<le> 9" by simp
  moreover have "n div 100 mod 10 \<le> 9" "n div 10 mod 10 \<le> 9" "n mod 10 \<le> 9"
    by simp_all
  ultimately show "length (digits n) = 4" and "\<forall>x\<in>set (digits n). 48 \<le> x \<and> x \<le> 57"
    using digits4 [OF assms] by auto
qed

lemma pad2_range:
  assumes "n < 100"
  shows "length (pad2 n) = 2" and "\<forall>x\<in>set (pad2 n). 48 \<le> x \<and> x \<le> 57"
proof -
  have "n div 10 \<le> 99 div 10" using assms by (intro div_le_mono) simp
  then have "n div 10 \<le> 9" by simp
  moreover have "n mod 10 \<le> 9" by simp
  ultimately show "length (pad2 n) = 2" and "\<forall>x\<in>set (pad2 n). 48 \<le> x \<and> x \<le> 57"
    by (auto simp: pad2_def)
qed

lemma strftime_range:
  assumes "1000 \<le> year c" "year c \<le> 9999" "month c < 100" "day c < 100" "hour c < 100"
    "minute c < 100" "second c < 100"
  shows "length (strftime c) = 14" and "\<forall>x\<in>set (strftime c). 48 \<le> x \<and> x \<le> 57"
proof -
  note y = digits4_range [OF assms(1,2)]
  note m = pad2_range [OF assms(3)] and d = pad2_range [OF assms(4)]
    and h = pad2_range [OF assms(5)] and mi = pad2_range [OF assms(6)]
    and s = pad2_range [OF assms(7)]
  show "length (strftime c) = 14"
    by (simp add: strftime_def y(1) m(1) d(1) h(1) mi(1) s(1))
  show "\<forall>x\<in>set (strftime c). 48 \<le> x \<and> x \<le> 57"
    unfolding strftime_def set_append ball_Un
    using y(2) m(2) d(2) h(2) mi(2) s(2) by (intro conjI)
qed

lemma create_persists_number:
  assumes "create_quotation env q u d = (Inr v, d')"
  shows "\<exists>h. quotations d' = quotations d @ [h]
            \<and> h ''quotation_number''
                = Some (JStr (generate_quotation_number (now env) (random_num env)))"
proof -
  from create_quotation_Inr [OF assms] obtain sub tax tot uid where
    qs: "quotations d' = quotations d @
               [gen_row env ++ new_quotation uid
                  (generate_quotation_number (now env) (random_num env)) q sub tax tot]"
    by blast
  define h where "h = gen_row env ++ new_quotation uid
                  (generate_quotation_number (now env) (random_num env)) q sub tax tot"
  have n: "h ''quotation_number''
        = Some (JStr (generate_quotation_number (now env) (random_num env)))"
    by (simp add: h_def new_quotation_def)
  from qs have "quotations d' = quotations d @ [h]" by (simp only: h_def)
  with n show ?thesis by (intro exI [of _ h] conjI)
qed

text \<open>
  Claim C9. For a clock reading with a four-digit year and a random number between 1000
  and 9999, the quotation number is \<open>Q-\<close>, the 14 decimal digits of the time stamp, a
  hyphen, and the four decimal digits of the random number. \<open>create_quotation\<close> stores
  this number in the new header whatever the quotation table holds: it never looks a
  number up.
\<close>

theorem quotation_number_format:
  assumes "1000 \<le> year c" and "year c \<le> 9999"
    and "1 \<le> month c" and "month c \<le> 12" and "1 \<le> day c" and "day c \<le> 31"
    and "hour c \<le> 23" and "minute c \<le> 59" and "second c \<le> 59"
    and "1000 \<le> rnd" and "rnd \<le> 9999"
  shows "generate_quotation_number c rnd = asc ''Q-'' @ strftime c @ asc ''-'' @ digits rnd
       \<and> length (strftime c) = 14 \<and> (\<forall>x\<in>set (strftime c). 48 \<le> x \<and> x \<le> 57)
       \<and> length (digits rnd) = 4 \<and> (\<forall>x\<in>set (digits rnd). 48 \<le> x \<and> x \<le> 57)
       \<and> (create_quotation env q u d = (Inr v, d') \<longrightarrow>
            (\<exists>h. quotations d' = quotations d @ [h]
               \<and> h ''quotation_number''
                   = Some (JStr (generate_quotation_number (now env) (random_num env)))))"
proof -
  have lt: "month c < 100" "day c < 100" "hour c < 100" "minute c < 100" "second c < 100"
    using assms by simp_all
  have s: "length (strftime c) = 14" "\<forall>x\<in>set (strftime c). 48 \<le> x \<and> x \<le> 57"
    using strftime_range [OF assms(1,2) lt] by blast+
  have r: "length (digits rnd) = 4" "\<forall>x\<in>set (digits rnd). 48 \<le> x \<and> x \<le> 57"
    using digits4_range [OF assms(10,11)] by blast+
  have g: "generate_quotation_number c rnd = asc ''Q-'' @ strftime c @ asc ''-'' @ digits rnd"
    by (simp add: generate_quotation_number_def)
  have p: "create_quotation env q u d = (Inr v, d') \<longrightarrow>
            (\<exists>h. quotations d' = quotations d @ [h]
               \<and> h ''quotation_number''
                   = Some (JStr (generate_quotation_number (now env) (random_num env))))"
    by (rule impI, rule create_persists_number)
  from g s r p show ?thesis by (intro conjI)
qed

lemma demo_number:
  "generate_quotation_number (now demo_env) (random_num demo_env) = asc ''Q-20240517093007-4821''"
proof -
  have y: "digits 2024 = [50, 48, 50, 52]" using digits4 [of 2024] by simp
  have r: "digits 4821 = [52, 56, 50, 49]" using digits4 [of 4821] by simp
  show ?thesis
    by (simp add: generate_quotation_number_def strftime_def pad2_def demo_env_def asc_def y r)
qed

theorem quotation_number_format_witness:
  "(1000::nat) \<le> year (now demo_env) \<and> year (now demo_env) \<le> 9999
 \<and> 1 \<le> month (now demo_env) \<and> month (now demo_env) \<le> 12
 \<and> 1 \<le> day (now demo_env) \<and> day (now demo_env) \<le> 31
 \<and> hour (now demo_env) \<le> 23 \<and> minute (now demo_env) \<le> 59 \<and> second (now demo_env) \<le> 59
 \<and> 1000 \<le> random_num demo_env \<and> random_num demo_env \<le> 9999
 \<and> create_quotation demo_env demo_request demo_user demo_db
      = (Inr (projr (fst demo_created)), snd demo_created)
 \<and> generate_quotation_number (now demo_env) (random_num demo_env)
      = asc ''Q-'' @ strftime (now demo_env) @ asc ''-'' @ digits (random_num demo_env)
 \<and> generate_quotation_number (now demo_env) (random_num demo_env) = asc ''Q-20240517093007-4821''
 \<and> length (strftime (now demo_env)) = 14
 \<and> length (digits (random_num demo_env)) = 4
 \<and> (\<exists>h. quotations (snd demo_created) = quotations demo_db @ [h]
        \<and> h ''quotation_number''
            = Some (JStr (generate_quotation_number (now demo_env) (random_num demo_env))))"
proof -
  have h: "(1000::nat) \<le> year (now demo_env)" "year (now demo_env) \<le> 9999"
    "1 \<le> month (now demo_env)" "month (now demo_env) \<le> 12"
    "1 \<le> day (now demo_env)" "day (now demo_env) \<le> 31"
    "hour (now demo_env) \<le> 23" "minute (now demo_env) \<le> 59" "second (now demo_env) \<le> 59"
    "1000 \<le> random_num demo_env" "random_num demo_env \<le> 9999"
    by (simp_all add: demo_env_def)
  have c: "create_quotation demo_env demo_request demo_user demo_db
             = (Inr (projr (fst demo_created)), snd demo_created)"
    using demo_created_ok by (simp add: demo_created_def)
  note inst = quotation_number_format [OF h, where env = demo_env and q = demo_request
      and u = demo_user and d = demo_db and v = "projr (fst demo_created)"
      and d' = "snd demo_created"]
  from inst have g: "generate_quotation_number (now demo_env) (random_num demo_env)
      = asc ''Q-'' @ strftime (now demo_env) @ asc ''-'' @ digits (random_num demo_env)"
    by (elim conjE)
  from inst have l1: "length (strftime (now demo_env)) = 14" by (elim conjE)
  from inst have l2: "length (digits (random_num demo_env)) = 4" by (elim conjE)
  from inst c have p: "\<exists>h. quotations (snd demo_created) = quotations demo_db @ [h]
        \<and> h ''quotation_number''
            = Some (JStr (generate_quotation_number (now demo_env) (random_num demo_env)))"
    by (elim conjE) (erule mp)
  from h c g demo_number l1 l2 p show ?thesis by (intro conjI)
qed

section \<open>Tenancy\<close>













section \<open>Payment update\<close>







end
